theory Spec2Isabelle
  imports Main "HOL-Library.Char_ord" "HOL-Library.List_Lexorder"
begin

section \<open>Text\<close>

text \<open>
  A Python \<open>str\<close> is modelled as a \<open>string\<close>: each \<open>char\<close> stands for the code point
  of the same number, so the texts covered are those over the code points 0 to 255.
  \<open>str.strip()\<close> without argument removes the characters for which \<open>str.isspace\<close>
  holds; below 256 these are the code points listed in \<open>is_space\<close>.
\<close>

definition is_space :: "char \<Rightarrow> bool" where
  "is_space c = (of_char c \<in> {9::nat, 10, 11, 12, 13, 28, 29, 30, 31, 32, 133, 160})"

definition lstrip :: "string \<Rightarrow> string" where
  "lstrip s = dropWhile is_space s"

definition rstrip :: "string \<Rightarrow> string" where
  "rstrip s = rev (dropWhile is_space (rev s))"

definition strip :: "string \<Rightarrow> string" where
  "strip s = rstrip (lstrip s)"

definition LF :: char where
  "LF = CHR 0x0A"

definition CR :: char where
  "CR = CHR 0x0D"

definition colon :: char where
  "colon = CHR '':''"

text \<open>
  \<open>line.split(":", 1)\<close> on a line that contains a colon: the text before the first
  colon and the text after it.
\<close>

definition split_colon :: "string \<Rightarrow> string \<times> string" where
  "split_colon line =
     (takeWhile (\<lambda>c. c \<noteq> colon) line, drop 1 (dropWhile (\<lambda>c. c \<noteq> colon) line))"

text \<open>
  A file opened in text mode with the default \<open>newline=None\<close> translates
  \<open>\r\n\<close> and \<open>\r\<close> to \<open>\n\<close>; iterating over the handle yields the lines, each
  with its terminating \<open>\n\<close> (the last line may have none).
\<close>

fun translate_newlines :: "string \<Rightarrow> string" where
  "translate_newlines [] = []"
| "translate_newlines [c] = (if c = CR then [LF] else [c])"
| "translate_newlines (c # d # cs) =
     (if c = CR \<and> d = LF then LF # translate_newlines cs
      else if c = CR then LF # translate_newlines (d # cs)
      else c # translate_newlines (d # cs))"

fun lines_from :: "string \<Rightarrow> string \<Rightarrow> string list" where
  "lines_from cur [] = (if cur = [] then [] else [cur])"
| "lines_from cur (c # cs) =
     (if c = LF then (cur @ [c]) # lines_from [] cs else lines_from (cur @ [c]) cs)"

definition file_lines :: "string \<Rightarrow> string list" where
  "file_lines text = lines_from [] (translate_newlines text)"

section \<open>Values\<close>

text \<open>
  The values that reach \<open>json.dumps\<close> and that \<open>json.loads\<close> produces. A \<open>dict\<close>
  keeps its insertion order, so it is an association list; a Python \<open>dict\<close> never holds
  a key twice (\<open>wf_json\<close> below). A \<open>float\<close> is held as the text \<open>json.dumps\<close> writes
  for it (\<open>float.__repr__\<close>), which the program passes on without computing with it.
\<close>

datatype json =
    JNull
  | JBool bool
  | JInt int
  | JFloat string
  | JStr string
  | JArr "json list"
  | JObj "(string \<times> json) list"

type_synonym dict = "(string \<times> json) list"

definition dict_get :: "dict \<Rightarrow> string \<Rightarrow> json option" where
  "dict_get d k = map_of d k"

text \<open>\<open>d[k] = v\<close>: a key already present keeps its place, a new key goes to the end.\<close>

fun dict_set :: "string \<Rightarrow> json \<Rightarrow> dict \<Rightarrow> dict" where
  "dict_set k v [] = [(k, v)]"
| "dict_set k v ((k', v') # d) =
     (if k = k' then (k, v) # d else (k', v') # dict_set k v d)"

text \<open>\<open>d.update(e)\<close>: the entries of \<open>e\<close> are stored in \<open>d\<close> in their order.\<close>

definition dict_update :: "dict \<Rightarrow> dict \<Rightarrow> dict" where
  "dict_update d e = fold (\<lambda>(k, v). dict_set k v) e d"

section \<open>Exceptions\<close>

datatype exn =
    OSError string
  | UnicodeDecodeError
  | TimeoutError string
  | RuntimeError string
  | JSONDecodeError
  | RecursionError
  | ValueError string
  | AttributeError string
  | OtherError string

fun is_OSError :: "exn \<Rightarrow> bool" where
  "is_OSError (OSError m) = True"
| "is_OSError (TimeoutError m) = True"
| "is_OSError e = False"

section \<open>Parsing a colon-delimited file\<close>

text \<open>The body of the loop of \<open>_parse_key_value_file\<close>, for one line.\<close>

definition parse_line :: "string \<Rightarrow> dict \<Rightarrow> dict" where
  "parse_line line parsed =
     (if strip line = [] then parsed
      else if colon \<notin> set line then parsed
      else (case split_colon line of
              (key, val) \<Rightarrow> dict_set (strip key) (JStr (strip val)) parsed))"

definition parse_lines :: "string list \<Rightarrow> dict" where
  "parse_lines ls = fold parse_line ls []"

definition parse_text :: "string \<Rightarrow> dict" where
  "parse_text text = parse_lines (file_lines text)"

section \<open>Serialization\<close>

text \<open>
  \<open>json.dumps\<close> with its default \<open>ensure_ascii=True\<close>: a string is written between
  double quotes; the backslash, the double quote and every character outside the range
  from the space to the tilde are escaped, five control characters by their short
  escape and the others as \<open>\uXXXX\<close> with lower-case hexadecimal digits.
\<close>

definition backslash :: char where
  "backslash = CHR 0x5C"

definition dquote :: char where
  "dquote = CHR 0x22"

definition hex_digit :: "nat \<Rightarrow> char" where
  "hex_digit n = ''0123456789abcdef'' ! (n mod 16)"

definition escape_char :: "char \<Rightarrow> string" where
  "escape_char c =
     (let n = of_char c :: nat in
      if c = backslash then [backslash, backslash]
      else if c = dquote then [backslash, dquote]
      else if 32 \<le> n \<and> n \<le> 126 then [c]
      else if n = 8 then [backslash, CHR ''b'']
      else if n = 12 then [backslash, CHR ''f'']
      else if n = 10 then [backslash, CHR ''n'']
      else if n = 13 then [backslash, CHR ''r'']
      else if n = 9 then [backslash, CHR ''t'']
      else [backslash, CHR ''u'', CHR ''0'', CHR ''0'', hex_digit (n div 16), hex_digit n])"

definition encode_str :: "string \<Rightarrow> string" where
  "encode_str s = dquote # concat (map escape_char s) @ [dquote]"

text \<open>An \<open>int\<close> in decimal, as \<open>str\<close> and \<open>json.dumps\<close> write it.\<close>

definition digit_char :: "nat \<Rightarrow> char" where
  "digit_char n = ''0123456789'' ! (n mod 10)"

fun digits :: "nat \<Rightarrow> string" where
  "digits n = (if n < 10 then [digit_char n] else digits (n div 10) @ [digit_char n])"

declare digits.simps [simp del]

definition show_int :: "int \<Rightarrow> string" where
  "show_int i = (if i < 0 then CHR ''-'' # digits (nat (- i)) else digits (nat i))"

fun join :: "string \<Rightarrow> string list \<Rightarrow> string" where
  "join sep [] = []"
| "join sep [x] = x"
| "join sep (x # y # ys) = x @ sep @ join sep (y # ys)"

text \<open>
  \<open>json.dumps(payload)\<close> with the default separators \<open>", "\<close> and \<open>": "\<close>, on one
  line, the keys in insertion order.
\<close>

fun dumps :: "json \<Rightarrow> string" where
  "dumps JNull = ''null''"
| "dumps (JBool b) = (if b then ''true'' else ''false'')"
| "dumps (JInt i) = show_int i"
| "dumps (JFloat r) = r"
| "dumps (JStr s) = encode_str s"
| "dumps (JArr xs) = ''['' @ join '', '' (map dumps xs) @ '']''"
| "dumps (JObj kvs) =
     ''{'' @ join '', '' (map (\<lambda>(k, v). encode_str k @ '': '' @ dumps v) kvs) @ ''}''"

text \<open>
  \<open>json.dumps(data, indent=2, sort_keys=True)\<close>. With an indent the item separator is
  \<open>","\<close> followed by a newline and the indentation of the current level; an empty
  list or dict is written \<open>[]\<close> or \<open>{}\<close>; the items of a dict are sorted by key before
  they are written. The first argument is the current indentation level.
\<close>

definition newline_indent :: "nat \<Rightarrow> string" where
  "newline_indent level = LF # replicate (2 * level) CHR '' ''"

definition sorted_items :: "(string \<times> 'a) list \<Rightarrow> (string \<times> 'a) list" where
  "sorted_items kvs = sort_key fst kvs"

function dumps_indent :: "nat \<Rightarrow> json \<Rightarrow> string" where
  "dumps_indent level JNull = ''null''"
| "dumps_indent level (JBool b) = (if b then ''true'' else ''false'')"
| "dumps_indent level (JInt i) = show_int i"
| "dumps_indent level (JFloat r) = r"
| "dumps_indent level (JStr s) = encode_str s"
| "dumps_indent level (JArr xs) =
     (if xs = [] then ''[]''
      else ''['' @ newline_indent (level + 1)
           @ join ('','' @ newline_indent (level + 1)) (map (dumps_indent (level + 1)) xs)
           @ newline_indent level @ '']'')"
| "dumps_indent level (JObj kvs) =
     (if kvs = [] then ''{}''
      else ''{'' @ newline_indent (level + 1)
           @ join ('','' @ newline_indent (level + 1))
               (map (\<lambda>(k, v). encode_str k @ '': '' @ dumps_indent (level + 1) v)
                    (sorted_items kvs))
           @ newline_indent level @ ''}'')"
  by pat_completeness auto
termination
proof (relation "measure (\<lambda>(level, v). size v)")
  show "wf (measure (\<lambda>(level, v). size v))"
    by simp
next
  fix level :: nat and xs :: "json list" and x
  assume "x \<in> set xs"
  then have "size x < Suc (size_list size xs)"
    by (induction xs) auto
  then show "((level + 1, x), (level, JArr xs)) \<in> measure (\<lambda>(level, v). size v)"
    by simp
next
  fix level :: nat and kvs :: "(string \<times> json) list" and x k v
  assume "x \<in> set (sorted_items kvs)" and "(k, v) = x"
  then have "(k, v) \<in> set kvs"
    by (simp add: sorted_items_def)
  then have "size v < Suc (size_list (size_prod (\<lambda>_. 0) size) kvs)"
    by (induction kvs) auto
  then show "((level + 1, v), (level, JObj kvs)) \<in> measure (\<lambda>(level, v). size v)"
    by simp
qed

record TelemetrySnapshot =
  data :: dict

definition to_json :: "TelemetrySnapshot \<Rightarrow> string" where
  "to_json snapshot = dumps_indent 0 (JObj (data snapshot))"

section \<open>The host\<close>

text \<open>
  What \<open>collect\<close> reads from the operating system. \<open>os_getloadavg\<close> is \<open>None\<close> where
  the \<open>os\<close> module has no \<open>getloadavg\<close>; where it has one, the call returns the three
  figures or raises (\<open>OSError\<close> when the load average is unobtainable).
  \<open>open_text path\<close> is what opening and reading the file does: \<open>open\<close> raises, or
  the handle yields the lines of a text and then either ends or raises (a read error is
  an \<open>OSError\<close>, a byte sequence that is not UTF-8 a \<open>UnicodeDecodeError\<close>).
\<close>

record times_result =
  user :: string
  system :: string
  children_user :: string
  children_system :: string
  elapsed :: string

record host =
  time_time :: string
  platform_system :: string
  platform_release :: string
  platform_version :: string
  platform_machine :: string
  platform_python_version :: string
  os_getloadavg :: "(exn + string \<times> string \<times> string) option"
  os_path_exists :: "string \<Rightarrow> bool"
  open_text :: "string \<Rightarrow> exn + string \<times> exn option"
  os_times :: times_result
  os_getpid :: int

section \<open>The collector\<close>

definition platform_info :: "host \<Rightarrow> dict" where
  "platform_info h =
     [(''system'', JStr (platform_system h)),
      (''release'', JStr (platform_release h)),
      (''version'', JStr (platform_version h)),
      (''machine'', JStr (platform_machine h)),
      (''python'', JStr (platform_python_version h))]"

definition load_average :: "host \<Rightarrow> exn + json" where
  "load_average h =
     (case os_getloadavg h of
        None \<Rightarrow> Inr JNull
      | Some (Inl e) \<Rightarrow> Inl e
      | Some (Inr (one, five, fifteen)) \<Rightarrow>
          Inr (JObj [(''1min'', JFloat one), (''5min'', JFloat five),
                     (''15min'', JFloat fifteen)]))"

text \<open>
  \<open>_parse_key_value_file\<close>: the \<open>try\<close> absorbs an \<open>OSError\<close> from \<open>open\<close> or from
  reading, keeping the entries parsed so far; any other exception leaves the function.
\<close>

definition parse_key_value_file :: "host \<Rightarrow> string \<Rightarrow> exn + dict" where
  "parse_key_value_file h path =
     (case open_text h path of
        Inl e \<Rightarrow> if is_OSError e then Inr [] else Inl e
      | Inr (text, failure) \<Rightarrow>
          (case failure of
             None \<Rightarrow> Inr (parse_text text)
           | Some e \<Rightarrow> if is_OSError e then Inr (parse_text text) else Inl e))"

definition meminfo_path :: string where
  "meminfo_path = ''/proc/meminfo''"

definition memory_info :: "host \<Rightarrow> exn + dict" where
  "memory_info h =
     (if os_path_exists h meminfo_path
      then (case parse_key_value_file h meminfo_path of
              Inl e \<Rightarrow> Inl e
            | Inr parsed \<Rightarrow> Inr (dict_update [] parsed))
      else Inr [])"

definition status_path :: "host \<Rightarrow> string" where
  "status_path h = ''/proc/'' @ show_int (os_getpid h) @ ''/status''"

definition process_info :: "host \<Rightarrow> exn + dict" where
  "process_info h =
     (let usage = os_times h;
          info = [(''pid'', JInt (os_getpid h)),
                  (''cpu_time_user'', JFloat (user usage)),
                  (''cpu_time_system'', JFloat (system usage)),
                  (''cpu_time_children_user'', JFloat (children_user usage)),
                  (''cpu_time_children_system'', JFloat (children_system usage)),
                  (''elapsed'', JFloat (elapsed usage))]
      in if os_path_exists h (status_path h)
         then (case parse_key_value_file h (status_path h) of
                 Inl e \<Rightarrow> Inl e
               | Inr parsed \<Rightarrow> Inr (dict_update info parsed))
         else Inr info)"

text \<open>
  \<open>collect\<close>: the values of the dict display are computed in the order written, so the
  first sub-collector that raises decides the exception.
\<close>

definition collect :: "host \<Rightarrow> exn + TelemetrySnapshot" where
  "collect h =
     (case load_average h of
        Inl e \<Rightarrow> Inl e
      | Inr la \<Rightarrow>
     (case memory_info h of
        Inl e \<Rightarrow> Inl e
      | Inr mem \<Rightarrow>
     (case process_info h of
        Inl e \<Rightarrow> Inl e
      | Inr proc \<Rightarrow>
          Inr \<lparr>data = [(''timestamp'', JFloat (time_time h)),
                       (''platform'', JObj (platform_info h)),
                       (''load_average'', la),
                       (''memory'', JObj mem),
                       (''process'', JObj proc)]\<rparr>)))"

text \<open>The entry of a key in the snapshot that \<open>collect\<close> produced, if it produced one.\<close>

definition snapshot_get :: "exn + TelemetrySnapshot \<Rightarrow> string \<Rightarrow> json option" where
  "snapshot_get r k = (case r of Inl e \<Rightarrow> None | Inr s \<Rightarrow> dict_get (data s) k)"

section \<open>The analyzer\<close>

record ChatGPTTelemetryAnalyzer =
  api_key :: string
  model :: string
  endpoint :: string
  request_timeout :: "string option"

text \<open>The arguments given to \<open>urllib.request.Request\<close>.\<close>

record Request =
  full_url :: string
  body_data :: string
  headers :: "(string \<times> string) list"
  http_method :: string

text \<open>
  What the \<open>try\<close> block of \<open>analyze\<close> (\<open>urlopen\<close>, \<open>read\<close>, \<open>decode("utf-8")\<close>) does
  for a request: it yields the decoded body of a successful response, or the body is not
  valid UTF-8 and \<open>decode\<close> raises, or \<open>urlopen\<close> raises \<open>HTTPError\<close> (carried here
  with its status code and its body as \<open>decode('utf-8', 'ignore')\<close> gives it), or it
  raises another \<open>URLError\<close> (carried with its \<open>str\<close>), or an exception that is not a
  \<open>URLError\<close> is raised. The network records every request it is asked to send.
\<close>

datatype exchange =
    Response_text string
  | Response_undecodable
  | HTTPError int string
  | URLError string
  | Raises exn

record network =
  respond :: "Request \<Rightarrow> string option \<Rightarrow> exchange"
  sent :: "Request list"

definition system_instruction :: string where
  "system_instruction =
     ''You are a telemetry analyst. Provide concise feedback ''
     @ ''highlighting potential issues or anomalies.''"

definition user_content :: "TelemetrySnapshot \<Rightarrow> string" where
  "user_content snapshot =
     ''Here is a telemetry snapshot. Summarize notable points and ''
     @ ''suggest next steps if something looks problematic.'' @ [LF, LF]
     @ ''```json'' @ [LF] @ to_json snapshot @ [LF] @ ''```''"

definition payload :: "ChatGPTTelemetryAnalyzer \<Rightarrow> TelemetrySnapshot \<Rightarrow> json" where
  "payload a snapshot =
     JObj [(''model'', JStr (model a)),
           (''messages'',
              JArr [JObj [(''role'', JStr ''system''), (''content'', JStr system_instruction)],
                    JObj [(''role'', JStr ''user''),
                          (''content'', JStr (user_content snapshot))]]),
           (''temperature'', JFloat ''0.2'')]"

definition build_request :: "ChatGPTTelemetryAnalyzer \<Rightarrow> TelemetrySnapshot \<Rightarrow> Request" where
  "build_request a snapshot =
     \<lparr>full_url = endpoint a,
      body_data = dumps (payload a snapshot),
      headers = [(''Content-Type'', ''application/json''),
                 (''Authorization'', ''Bearer '' @ api_key a)],
      http_method = ''POST''\<rparr>"

text \<open>\<open>d.get(k)\<close>: \<open>None\<close> for a missing key.\<close>

definition py_get :: "dict \<Rightarrow> string \<Rightarrow> json" where
  "py_get d k = (case dict_get d k of None \<Rightarrow> JNull | Some v \<Rightarrow> v)"

text \<open>
  \<open>isinstance(choices, Iterable)\<close> holds for a list, a dict and a string; iterating
  over a dict yields its keys and over a string its characters.
\<close>

fun iter_items :: "json \<Rightarrow> json list option" where
  "iter_items (JArr xs) = Some xs"
| "iter_items (JObj d) = Some (map (\<lambda>(k, v). JStr k) d)"
| "iter_items (JStr s) = Some (map (\<lambda>c. JStr [c]) s)"
| "iter_items v = None"

text \<open>The \<open>for\<close> loop of \<open>_extract_message\<close>.\<close>

fun first_content :: "json list \<Rightarrow> string" where
  "first_content [] = []"
| "first_content (choice # rest) =
     (let message = (case choice of JObj c \<Rightarrow> py_get c ''message'' | _ \<Rightarrow> JNull)
      in case message of
           JObj m \<Rightarrow>
             (case py_get m ''content'' of
                JStr content \<Rightarrow> strip content
              | _ \<Rightarrow> first_content rest)
         | _ \<Rightarrow> first_content rest)"

text \<open>
  \<open>_extract_message\<close>: \<open>response_json.get\<close> exists on a dict only; on any other
  decoded value the attribute lookup raises \<open>AttributeError\<close>.
\<close>

definition extract_message :: "json \<Rightarrow> exn + string" where
  "extract_message response_json =
     (case response_json of
        JObj d \<Rightarrow>
          (case iter_items (py_get d ''choices'') of
             None \<Rightarrow> Inr []
           | Some choices \<Rightarrow> Inr (first_content choices))
      | _ \<Rightarrow> Inl (AttributeError ''get''))"

definition protocol_error :: "int \<Rightarrow> string \<Rightarrow> exn" where
  "protocol_error code body =
     RuntimeError (''ChatGPT API returned HTTP '' @ show_int code @ '': '' @ body)"

definition transport_error :: "string \<Rightarrow> exn" where
  "transport_error description = RuntimeError (''Failed to reach ChatGPT API: '' @ description)"

text \<open>
  \<open>analyze\<close>, given \<open>json.loads\<close>, which returns the decoded value or raises
  (\<open>JSONDecodeError\<close>, or for instance \<open>RecursionError\<close> for nesting beyond the limit
  of the interpreter); no handler surrounds the call. The endpoint is
  taken to be a URL that \<open>Request\<close> accepts. The result is paired with the network after
  the call.
\<close>

definition analyze ::
  "(string \<Rightarrow> exn + json) \<Rightarrow> ChatGPTTelemetryAnalyzer \<Rightarrow> TelemetrySnapshot \<Rightarrow> network
     \<Rightarrow> (exn + dict) \<times> network" where
  "analyze json_loads a snapshot net =
     (let request = build_request a snapshot;
          net' = net\<lparr>sent := sent net @ [request]\<rparr>
      in case respond net request (request_timeout a) of
           HTTPError code body \<Rightarrow> (Inl (protocol_error code body), net')
         | URLError description \<Rightarrow> (Inl (transport_error description), net')
         | Raises e \<Rightarrow> (Inl e, net')
         | Response_undecodable \<Rightarrow> (Inl UnicodeDecodeError, net')
         | Response_text body \<Rightarrow>
             (case json_loads body of
                Inl e \<Rightarrow> (Inl e, net')
              | Inr parsed \<Rightarrow>
                  (case extract_message parsed of
                     Inl e \<Rightarrow> (Inl e, net')
                   | Inr analysis \<Rightarrow>
                       (Inr [(''analysis'', JStr analysis), (''raw_response'', parsed)],
                        net'))))"

section \<open>HTTP answers and redirects\<close>













section \<open>Notions used by the properties\<close>

subsection \<open>Lines of a colon-delimited file\<close>

text \<open>
  A line that is not blank and contains a colon, and the entry such a line stands for:
  the text before its first colon and the text after it, both trimmed.
\<close>

definition qualifies :: "string \<Rightarrow> bool" where
  "qualifies l = (strip l \<noteq> [] \<and> colon \<in> set l)"

definition entry_of :: "string \<Rightarrow> string \<times> json" where
  "entry_of l = (strip (fst (split_colon l)), JStr (strip (snd (split_colon l))))"

text \<open>
  The reading of the specification in which every such line has its own entry in the
  result: each qualifying line's key is mapped to that line's value.
\<close>

definition spec_every_line_has_entry :: "string list \<Rightarrow> dict \<Rightarrow> bool" where
  "spec_every_line_has_entry ls d =
     list_all (\<lambda>l. \<not> qualifies l \<or> dict_get d (fst (entry_of l)) = Some (snd (entry_of l))) ls"

subsection \<open>Textual content of a choice\<close>

text \<open>
  The textual message content of a choice: the choice is an object whose \<open>message\<close> is
  an object whose \<open>content\<close> is a string.
\<close>

definition message_content :: "json \<Rightarrow> string option" where
  "message_content choice =
     (case choice of
        JObj c \<Rightarrow>
          (case dict_get c ''message'' of
             Some (JObj m) \<Rightarrow>
               (case dict_get m ''content'' of Some (JStr s) \<Rightarrow> Some s | _ \<Rightarrow> None)
           | _ \<Rightarrow> None)
      | _ \<Rightarrow> None)"

text \<open>
  The choices list of a response object: its \<open>choices\<close> when that is a list, no
  choices otherwise.
\<close>

definition choices_list :: "dict \<Rightarrow> json list" where
  "choices_list d = (case dict_get d ''choices'' of Some (JArr cs) \<Rightarrow> cs | _ \<Rightarrow> [])"

text \<open>The first textual content among the choices, trimmed; empty if there is none.\<close>

definition first_textual_content :: "json list \<Rightarrow> string" where
  "first_textual_content choices =
     (case List.map_filter message_content choices of [] \<Rightarrow> [] | s # rest \<Rightarrow> strip s)"

text \<open>
  The specification's wording: the first \<^emph>\<open>non-empty\<close> textual content among the
  choices, trimmed; empty if there is none.
\<close>

definition spec_first_nonempty_content :: "json list \<Rightarrow> string" where
  "spec_first_nonempty_content choices =
     (case filter (\<lambda>s. s \<noteq> []) (List.map_filter message_content choices) of
        [] \<Rightarrow> []
      | s # rest \<Rightarrow> strip s)"

subsection \<open>Content of a snapshot\<close>

text \<open>A Python value: no dict in it holds a key twice.\<close>

fun wf_json :: "json \<Rightarrow> bool" where
  "wf_json (JArr xs) = (\<forall>x \<in> set xs. wf_json x)"
| "wf_json (JObj kvs) = (distinct (map fst kvs) \<and> (\<forall>(k, v) \<in> set kvs. wf_json v))"
| "wf_json v = True"

text \<open>
  Two values have the same content: equal scalars, lists with the same content at each
  position, dicts with the same keys mapped to the same content, whatever the order in
  which the keys were inserted.
\<close>

fun same_content :: "json \<Rightarrow> json \<Rightarrow> bool" where
  "same_content (JArr xs) (JArr ys) = list_all2 same_content xs ys"
| "same_content (JObj xs) (JObj ys) =
     (length xs = length ys \<and>
      (\<forall>(k, v) \<in> set xs.
         case map_of ys k of None \<Rightarrow> False | Some w \<Rightarrow> same_content v w))"
| "same_content v w = (v = w)"

section \<open>Concrete hosts, responses and snapshots\<close>

definition meminfo_text :: string where
  "meminfo_text =
     ''MemTotal:       16384 kB'' @ [LF] @ ''MemFree:         8192 kB'' @ [LF]"

definition status_text :: string where
  "status_text = ''Name: python3'' @ [LF] @ ''Pid: 4242'' @ [LF]"

definition linux_host :: host where
  "linux_host =
     \<lparr>time_time = ''1700000000.5'',
      platform_system = ''Linux'',
      platform_release = ''6.1.0'',
      platform_version = ''#1 SMP'',
      platform_machine = ''x86_64'',
      platform_python_version = ''3.11.4'',
      os_getloadavg = Some (Inr (''0.5'', ''0.25'', ''0.1'')),
      os_path_exists = (\<lambda>p. p = ''/proc/meminfo'' \<or> p = ''/proc/4242/status''),
      open_text = (\<lambda>p. if p = ''/proc/meminfo'' then Inr (meminfo_text, None)
                        else if p = ''/proc/4242/status'' then Inr (status_text, None)
                        else Inl (OSError ''No such file or directory'')),
      os_times = \<lparr>user = ''0.03'', system = ''0.01'', children_user = ''0.0'',
                  children_system = ''0.0'', elapsed = ''17011.2''\<rparr>,
      os_getpid = 4242\<rparr>"

definition linux_snapshot :: "json \<Rightarrow> TelemetrySnapshot" where
  "linux_snapshot la =
     \<lparr>data =
        [(''timestamp'', JFloat ''1700000000.5''),
         (''platform'',
            JObj [(''system'', JStr ''Linux''), (''release'', JStr ''6.1.0''),
                  (''version'', JStr ''#1 SMP''), (''machine'', JStr ''x86_64''),
                  (''python'', JStr ''3.11.4'')]),
         (''load_average'', la),
         (''memory'',
            JObj [(''MemTotal'', JStr ''16384 kB''), (''MemFree'', JStr ''8192 kB'')]),
         (''process'',
            JObj [(''pid'', JInt 4242), (''cpu_time_user'', JFloat ''0.03''),
                  (''cpu_time_system'', JFloat ''0.01''),
                  (''cpu_time_children_user'', JFloat ''0.0''),
                  (''cpu_time_children_system'', JFloat ''0.0''),
                  (''elapsed'', JFloat ''17011.2''), (''Name'', JStr ''python3''),
                  (''Pid'', JStr ''4242'')])]\<rparr>"

text \<open>A host whose \<open>os\<close> module has no \<open>getloadavg\<close>.\<close>

definition host_without_getloadavg :: host where
  "host_without_getloadavg = linux_host\<lparr>os_getloadavg := None\<rparr>"

text \<open>A host on which \<open>os.getloadavg()\<close> exists and raises \<open>OSError\<close>.\<close>

definition host_loadavg_unobtainable :: host where
  "host_loadavg_unobtainable =
     linux_host\<lparr>os_getloadavg := Some (Inl (OSError ''Load averages are unobtainable''))\<rparr>"

text \<open>A host whose status file holds bytes that are not UTF-8 after its first line.\<close>

definition host_status_not_utf8 :: host where
  "host_status_not_utf8 =
     linux_host\<lparr>open_text :=
       (\<lambda>p. if p = ''/proc/meminfo'' then Inr (meminfo_text, None)
            else if p = ''/proc/4242/status''
            then Inr (''Umask: 0022'' @ [LF], Some UnicodeDecodeError)
            else Inl (OSError ''No such file or directory''))\<rparr>"

text \<open>A host whose memory file exists and cannot be opened, and that has no status file.\<close>

definition host_meminfo_denied :: host where
  "host_meminfo_denied =
     linux_host\<lparr>os_getloadavg := None,
                os_path_exists := (\<lambda>p. p = ''/proc/meminfo''),
                open_text := (\<lambda>p. Inl (OSError ''Permission denied''))\<rparr>"

definition example_analyzer :: ChatGPTTelemetryAnalyzer where
  "example_analyzer =
     \<lparr>api_key = ''sk-test'', model = ''gpt-4o-mini'',
      endpoint = ''https://api.openai.com/v1/chat/completions'',
      request_timeout = Some ''30.0''\<rparr>"

definition small_snapshot :: TelemetrySnapshot where
  "small_snapshot = \<lparr>data = [(''timestamp'', JFloat ''1.5''), (''memory'', JObj [])]\<rparr>"


definition hello_body :: string where
  \<open>hello_body = ''{"choices":[{"message":{"content":" hello "}}]}''\<close>

definition hello_response :: json where
  "hello_response =
     JObj [(''choices'', JArr [JObj [(''message'', JObj [(''content'', JStr '' hello '')])]])]"

definition html_body :: string where
  "html_body = ''<html>Bad gateway</html>''"

definition nan_body :: string where
  \<open>nan_body = ''{"choices": NaN}''\<close>

text \<open>
  \<open>json.loads\<close> on the three bodies used below: it decodes the first, rejects the
  second, and accepts the third, whose \<open>NaN\<close> is not valid JSON, as the float
  \<open>nan\<close>.
\<close>

definition loads_example :: "string \<Rightarrow> exn + json" where
  "loads_example body =
     the (map_of [(hello_body, Inr hello_response),
                  (html_body, Inl JSONDecodeError),
                  (nan_body, Inr (JObj [(''choices'', JFloat ''NaN'')]))] body)"



definition net_of :: "exchange \<Rightarrow> network" where
  "net_of x = \<lparr>respond = (\<lambda>request timeout. x), sent = []\<rparr>"

text \<open>
  A file with a repeated key, a blank line, a line without a colon, a value that holds a
  colon and a \<open>\r\n\<close> line end; and a file in which two lines have the same key.
\<close>

definition time_text :: string where
  "time_text = ''Up: 12:30'' @ [LF] @ [LF] @ ''none'' @ [LF] @ ''Up : 1'' @ [CR, LF] @ ''T:x''"

definition dup_text :: string where
  "dup_text = ''a:1'' @ [LF] @ ''a:2'' @ [LF]"

text \<open>Two snapshots with the same content, their keys inserted in different orders.\<close>

definition snapshot_ab :: TelemetrySnapshot where
  "snapshot_ab =
     \<lparr>data = [(''timestamp'', JFloat ''1.5''),
              (''memory'', JObj [(''MemTotal'', JStr ''16 kB''), (''MemFree'', JStr ''8 kB'')]),
              (''load_average'', JNull)]\<rparr>"

definition snapshot_ba :: TelemetrySnapshot where
  "snapshot_ba =
     \<lparr>data = [(''load_average'', JNull),
              (''memory'', JObj [(''MemFree'', JStr ''8 kB''), (''MemTotal'', JStr ''16 kB'')]),
              (''timestamp'', JFloat ''1.5'')]\<rparr>"

text \<open>
  Choices whose first textual content is empty; choices none of which has a textual
  content.
\<close>

definition choices_empty_first :: "json list" where
  "choices_empty_first =
     [JObj [(''message'', JObj [(''content'', JStr '''')])],
      JObj [(''message'', JObj [(''content'', JStr ''hi'')])]]"

definition choices_without_text :: "json list" where
  "choices_without_text =
     [JStr ''x'', JObj [(''message'', JNull)],
      JObj [(''message'', JObj [(''content'', JInt 3)])], JObj []]"

section \<open>Evaluation rules\<close>

lemmas str_defs = strip_def lstrip_def rstrip_def is_space_def LF_def CR_def colon_def

lemmas parse_defs = parse_text_def file_lines_def parse_lines_def parse_line_def split_colon_def

lemmas line_defs = qualifies_def entry_of_def split_colon_def str_defs

lemmas dumps_defs = newline_indent_def sorted_items_def encode_str_def escape_char_def
  dquote_def backslash_def show_int_def digit_char_def hex_digit_def

section \<open>Association lists as dicts\<close>

lemma map_of_dict_set: "map_of (dict_set k v d) = (map_of d)(k \<mapsto> v)"
  by (induction d) (auto simp: fun_eq_iff)

lemma keys_dict_set: "fst ` set (dict_set k v d) = insert k (fst ` set d)"
  by (induction d) (simp_all, force+)

lemma distinct_dict_set: "distinct (map fst d) \<Longrightarrow> distinct (map fst (dict_set k v d))"
  by (induction d) (auto simp: keys_dict_set)

section \<open>The parser of colon-delimited files\<close>

lemma parse_line_entry:
  "parse_line l d = (if qualifies l then dict_set (fst (entry_of l)) (snd (entry_of l)) d else d)"
  by (auto simp: parse_line_def qualifies_def entry_of_def split: prod.splits)

lemma distinct_fold_parse:
  "distinct (map fst acc) \<Longrightarrow> distinct (map fst (fold parse_line ls acc))"
  by (induction ls arbitrary: acc) (simp_all add: parse_line_entry distinct_dict_set)

text \<open>
  The loop computes the map of the entries of the qualifying lines, a later line taking
  precedence over an earlier one with the same key.
\<close>

lemma map_of_fold_parse:
  "map_of (fold parse_line ls acc) = map_of (rev (map entry_of (filter qualifies ls)) @ acc)"
proof (induction ls arbitrary: acc)
  case Nil
  show ?case by simp
next
  case (Cons l ls)
  show ?case
  proof (cases "qualifies l")
    case True
    have "map_of (parse_line l acc) = map_of (entry_of l # acc)"
      using True by (cases "entry_of l") (simp add: parse_line_entry map_of_dict_set)
    then show ?thesis
      using True Cons.IH [of "parse_line l acc"] by (simp add: map_of_append)
  next
    case False
    then show ?thesis
      using Cons.IH [of acc] by (simp add: parse_line_entry)
  qed
qed

lemma map_of_parse_lines:
  "map_of (parse_lines ls) = map_of (rev (map entry_of (filter qualifies ls)))"
  using map_of_fold_parse [of ls "[]"] by (simp add: parse_lines_def)

lemma split_colon_join:
  assumes "colon \<in> set l"
  shows "l = fst (split_colon l) @ colon # snd (split_colon l)
         \<and> colon \<notin> set (fst (split_colon l))"
proof -
  let ?P = "\<lambda>c. c \<noteq> colon"
  from assms have ne: "dropWhile ?P l \<noteq> []"
    by (simp add: dropWhile_eq_Nil_conv)
  then have "hd (dropWhile ?P l) = colon"
    using hd_dropWhile [of ?P l] by simp
  with ne have "dropWhile ?P l = colon # drop 1 (dropWhile ?P l)"
    by (cases "dropWhile ?P l") simp_all
  then have "l = takeWhile ?P l @ colon # drop 1 (dropWhile ?P l)"
    using takeWhile_dropWhile_id [of ?P l] by simp
  moreover have "colon \<notin> set (takeWhile ?P l)"
    by (auto dest: set_takeWhileD)
  ultimately show ?thesis
    by (simp add: split_colon_def)
qed

lemma parse_lines_keys:
  "k \<in> set (map fst (parse_lines ls))
     \<longleftrightarrow> (\<exists>l \<in> set ls. qualifies l \<and> fst (entry_of l) = k)"
proof -
  have "set (map fst (parse_lines ls)) = dom (map_of (parse_lines ls))"
    by (simp add: dom_map_of_conv_image_fst)
  also have "\<dots> = fst ` set (map entry_of (filter qualifies ls))"
    by (simp add: map_of_parse_lines dom_map_of_conv_image_fst)
  finally show ?thesis
    by auto
qed

lemma parse_lines_last:
  assumes ls: "ls = pre @ l # post" and q: "qualifies l"
    and later: "\<forall>l' \<in> set post. qualifies l' \<longrightarrow> fst (entry_of l') \<noteq> fst (entry_of l)"
  shows "dict_get (parse_lines ls) (fst (entry_of l)) = Some (snd (entry_of l))"
proof -
  let ?k = "fst (entry_of l)"
  let ?es = "\<lambda>xs. map entry_of (filter qualifies xs)"
  have "?k \<notin> fst ` set (rev (?es post))"
    using later by auto
  then have none: "map_of (rev (?es post)) ?k = None"
    by (simp add: map_of_eq_None_iff)
  have "rev (?es ls) = rev (?es post) @ entry_of l # rev (?es pre)"
    using ls q by simp
  then have "map_of (rev (?es ls)) ?k = map_of (entry_of l # rev (?es pre)) ?k"
    using none by (simp add: map_of_append map_add_def)
  also have "\<dots> = Some (snd (entry_of l))"
    by (cases "entry_of l") simp
  finally show ?thesis
    by (simp add: dict_get_def map_of_parse_lines)
qed

lemma file_lines_time_text:
  "file_lines time_text
     = [''Up: 12:30'' @ [LF], [LF], ''none'' @ [LF], ''Up : 1'' @ [LF], ''T:x'']"
  by (simp add: time_text_def file_lines_def LF_def CR_def)

text \<open>
  C5, as amended. For every list of lines (those of any text, \<open>file_lines text\<close>,
  among them): the result holds no key twice; its keys are exactly the keys of the lines
  that are not blank and contain a colon, so blank lines and lines without a colon are
  ignored and every other line contributes its key; the value of a key is the value of
  the \<^emph>\<open>last\<close> such line with that key; and the key and the value of a line are the
  trimmed texts before and after its first colon, further colons staying in the value.
\<close>

theorem parse_lines_last_entry_wins:
  "distinct (map fst (parse_lines ls)) \<and>
   (\<forall>k. k \<in> set (map fst (parse_lines ls))
          \<longleftrightarrow> (\<exists>l \<in> set ls. qualifies l \<and> fst (entry_of l) = k)) \<and>
   (\<forall>pre l post.
      ls = pre @ l # post \<and> qualifies l \<and>
      (\<forall>l' \<in> set post. qualifies l' \<longrightarrow> fst (entry_of l') \<noteq> fst (entry_of l))
      \<longrightarrow> dict_get (parse_lines ls) (fst (entry_of l)) = Some (snd (entry_of l))) \<and>
   (\<forall>l \<in> set ls. qualifies l \<longrightarrow>
      (\<exists>before after.
         l = before @ colon # after \<and> colon \<notin> set before \<and>
         entry_of l = (strip before, JStr (strip after))))"
proof (intro conjI allI impI ballI)
  show "distinct (map fst (parse_lines ls))"
    by (simp add: parse_lines_def distinct_fold_parse)
next
  fix k
  show "k \<in> set (map fst (parse_lines ls))
          \<longleftrightarrow> (\<exists>l \<in> set ls. qualifies l \<and> fst (entry_of l) = k)"
    by (rule parse_lines_keys)
next
  fix pre l post
  assume "ls = pre @ l # post \<and> qualifies l \<and>
      (\<forall>l' \<in> set post. qualifies l' \<longrightarrow> fst (entry_of l') \<noteq> fst (entry_of l))"
  then show "dict_get (parse_lines ls) (fst (entry_of l)) = Some (snd (entry_of l))"
    using parse_lines_last [of ls pre l post] by blast
next
  fix l
  assume "l \<in> set ls" and "qualifies l"
  then have "colon \<in> set l"
    by (simp add: qualifies_def)
  from split_colon_join [OF this]
  show "\<exists>before after.
         l = before @ colon # after \<and> colon \<notin> set before \<and>
         entry_of l = (strip before, JStr (strip after))"
    unfolding entry_of_def by blast
qed

text \<open>
  The theorem at the lines of \<open>time_text\<close>: the second \<open>Up\<close> line decides the value of
  \<open>Up\<close>, the line \<open>T:x\<close> gives \<open>T\<close>, and the line without a colon gives no key.
\<close>

theorem parse_lines_last_entry_wins_witness:
  "dict_get (parse_text time_text) ''Up'' = Some (JStr ''1'') \<and>
   dict_get (parse_text time_text) ''T'' = Some (JStr ''x'') \<and>
   (''none'' \<in> set (map fst (parse_text time_text)) \<longleftrightarrow> False)"
proof -
  note main = parse_lines_last_entry_wins [of "file_lines time_text"]
  note last = main [THEN conjunct2, THEN conjunct2, THEN conjunct1, rule_format]
  note keys = main [THEN conjunct2, THEN conjunct1, rule_format]
  have "dict_get (parse_lines (file_lines time_text)) (fst (entry_of (''Up : 1'' @ [LF])))
        = Some (snd (entry_of (''Up : 1'' @ [LF])))"
    by (rule last [of "[''Up: 12:30'' @ [LF], [LF], ''none'' @ [LF]]" _ "[''T:x'']"])
      (simp add: file_lines_time_text line_defs)
  moreover have "dict_get (parse_lines (file_lines time_text)) (fst (entry_of ''T:x''))
        = Some (snd (entry_of ''T:x''))"
    by (rule last [of "[''Up: 12:30'' @ [LF], [LF], ''none'' @ [LF], ''Up : 1'' @ [LF]]" _ "[]"])
      (simp add: file_lines_time_text line_defs)
  moreover have "''none'' \<in> set (map fst (parse_lines (file_lines time_text))) \<longleftrightarrow> False"
    unfolding keys [of "''none''"] by (simp add: file_lines_time_text line_defs)
  ultimately show ?thesis
    by (simp add: parse_text_def line_defs)
qed

text \<open>
  C5 as stated fails: in \<open>dup_text\<close> the line \<open>a:1\<close> is not blank and contains a colon,
  and the result maps \<open>a\<close> to \<open>2\<close>, the value of the later line.
\<close>

theorem parse_every_line_counterexample:
  "\<not> spec_every_line_has_entry (file_lines dup_text) (parse_text dup_text)"
  by (simp add: spec_every_line_has_entry_def dup_text_def parse_defs str_defs
      qualifies_def entry_of_def dict_get_def)

lemma parse_text_dup_text: "parse_text dup_text = [(''a'', JStr ''2'')]"
  by (simp add: dup_text_def parse_defs str_defs)

section \<open>Collected snapshots are Python values\<close>

lemma wf_json_JObj_iff:
  "wf_json (JObj d) \<longleftrightarrow> distinct (map fst d) \<and> list_all (\<lambda>p. wf_json (snd p)) d"
  by (auto simp: list_all_iff)

lemma distinct_dict_update:
  "distinct (map fst d) \<Longrightarrow> distinct (map fst (dict_update d e))"
  unfolding dict_update_def
  by (induction e arbitrary: d) (auto simp: distinct_dict_set)

lemma values_dict_set:
  "wf_json v \<Longrightarrow> list_all (\<lambda>p. wf_json (snd p)) d
     \<Longrightarrow> list_all (\<lambda>p. wf_json (snd p)) (dict_set k v d)"
  by (induction d) auto

lemma values_dict_update:
  "list_all (\<lambda>p. wf_json (snd p)) d \<Longrightarrow> list_all (\<lambda>p. wf_json (snd p)) e
     \<Longrightarrow> list_all (\<lambda>p. wf_json (snd p)) (dict_update d e)"
  unfolding dict_update_def
  by (induction e arbitrary: d) (auto simp: values_dict_set)

lemma wf_json_dict_update:
  "wf_json (JObj d) \<Longrightarrow> wf_json (JObj e) \<Longrightarrow> wf_json (JObj (dict_update d e))"
  unfolding wf_json_JObj_iff by (simp add: distinct_dict_update values_dict_update)

lemma values_fold_parse:
  "list_all (\<lambda>p. wf_json (snd p)) acc
     \<Longrightarrow> list_all (\<lambda>p. wf_json (snd p)) (fold parse_line ls acc)"
  by (induction ls arbitrary: acc) (simp_all add: parse_line_entry entry_of_def values_dict_set)

lemma wf_json_parse_text: "wf_json (JObj (parse_text text))"
  unfolding wf_json_JObj_iff
  by (simp add: parse_text_def parse_lines_def distinct_fold_parse values_fold_parse)

lemma wf_json_parse_key_value_file:
  "parse_key_value_file h path = Inr parsed \<Longrightarrow> wf_json (JObj parsed)"
  using wf_json_parse_text [unfolded wf_json_JObj_iff] unfolding wf_json_JObj_iff
  by (auto simp: parse_key_value_file_def split: sum.splits option.splits if_splits)

text \<open>Every snapshot that \<open>collect\<close> returns is a Python value.\<close>

lemma collect_wf_json:
  assumes "collect h = Inr s"
  shows "wf_json (JObj (data s))"
proof -
  from assms obtain la mem proc where la: "load_average h = Inr la"
    and mem: "memory_info h = Inr mem" and proc: "process_info h = Inr proc"
    and s: "data s = [(''timestamp'', JFloat (time_time h)),
                       (''platform'', JObj (platform_info h)),
                       (''load_average'', la),
                       (''memory'', JObj mem),
                       (''process'', JObj proc)]"
    by (auto simp: collect_def split: sum.splits)
  from la have "wf_json la"
    by (auto simp: load_average_def split: option.splits sum.splits)
  moreover have "wf_json (JObj mem)"
  proof (cases "os_path_exists h meminfo_path")
    case True
    with mem obtain parsed where "parse_key_value_file h meminfo_path = Inr parsed"
      and "mem = dict_update [] parsed"
      by (auto simp: memory_info_def split: sum.splits)
    then show ?thesis
      using wf_json_dict_update [of "[]" parsed] wf_json_parse_key_value_file [of h meminfo_path]
      by simp
  next
    case False
    with mem show ?thesis by (auto simp: memory_info_def)
  qed
  moreover have "wf_json (JObj proc)"
  proof -
    let ?info = "[(''pid'', JInt (os_getpid h)),
                  (''cpu_time_user'', JFloat (user (os_times h))),
                  (''cpu_time_system'', JFloat (system (os_times h))),
                  (''cpu_time_children_user'', JFloat (children_user (os_times h))),
                  (''cpu_time_children_system'', JFloat (children_system (os_times h))),
                  (''elapsed'', JFloat (elapsed (os_times h)))]"
    have info: "wf_json (JObj ?info)"
      by simp
    show ?thesis
    proof (cases "os_path_exists h (status_path h)")
      case True
      with proc obtain parsed where p: "parse_key_value_file h (status_path h) = Inr parsed"
        and "proc = dict_update ?info parsed"
        by (auto simp: process_info_def Let_def split: sum.splits)
      then show ?thesis
        using wf_json_dict_update [OF info wf_json_parse_key_value_file [OF p]] by simp
    next
      case False
      with proc show ?thesis by (auto simp: process_info_def Let_def)
    qed
  qed
  moreover have "wf_json (JObj (platform_info h))"
    by (simp add: platform_info_def)
  ultimately show ?thesis
    by (simp add: s)
qed

section \<open>Deterministic serialization\<close>

text \<open>The keys of the sorted items are the sorted keys.\<close>

lemma map_fst_insort_key:
  "map fst (insort_key fst x xs) = insort (fst x) (map fst xs)"
  by (induction xs) simp_all

lemma map_fst_sorted_items: "map fst (sorted_items kvs) = sort (map fst kvs)"
  by (induction kvs) (simp_all add: sorted_items_def map_fst_insort_key)

lemma insort_key_map_fst:
  assumes "\<And>x. fst (g x) = fst x"
  shows "map g (insort_key fst x xs) = insort_key fst (g x) (map g xs)"
  by (induction xs) (simp_all add: assms)

lemma sort_key_map_fst:
  assumes "\<And>x. fst (g x) = fst x"
  shows "map g (sort_key fst xs) = sort_key fst (map g xs)"
  by (induction xs) (simp_all add: insort_key_map_fst [OF assms])

text \<open>
  Two association lists without repeated keys, of the same length, the entries of the
  first found in the second, are sorted into the same list.
\<close>

lemma sort_key_fst_unique:
  fixes xs ys :: "('k::linorder \<times> 'v) list"
  assumes dx: "distinct (map fst xs)" and dy: "distinct (map fst ys)"
    and len: "length xs = length ys"
    and sub: "\<And>k v. (k, v) \<in> set xs \<Longrightarrow> map_of ys k = Some v"
  shows "sort_key fst xs = sort_key fst ys"
proof -
  have "set xs \<subseteq> set ys"
    using sub by (auto dest: map_of_SomeD)
  moreover have "card (set xs) = length xs" "card (set ys) = length ys"
    using dx dy by (simp_all add: distinct_card distinct_map)
  ultimately have eq: "set xs = set ys"
    using len by (simp add: card_subset_eq)
  have inj: "inj_on fst (set (sort_key fst xs) \<union> set (sort_key fst ys))"
    using dx eq by (simp add: distinct_map)
  show ?thesis
  proof (rule map_sorted_distinct_set_unique [OF inj])
    show "sorted (map fst (sort_key fst xs))" "sorted (map fst (sort_key fst ys))"
      by simp_all
    show "distinct (map fst (sort_key fst xs))"
      using dx by (simp add: distinct_map)
    show "distinct (map fst (sort_key fst ys))"
      using dy by (simp add: distinct_map)
    show "set (sort_key fst xs) = set (sort_key fst ys)"
      using eq by simp
  qed
qed

lemma map_eq_of_list_all2:
  "list_all2 (\<lambda>x y. f x = f y) xs ys \<Longrightarrow> map f xs = map f ys"
  by (induction rule: list_all2_induct) simp_all

lemma same_content_dumps_indent:
  "wf_json a \<Longrightarrow> wf_json b \<Longrightarrow> same_content a b
     \<Longrightarrow> dumps_indent n a = dumps_indent n b"
proof (induction a arbitrary: b n)
  case (JArr xs)
  from JArr.prems(3) obtain ys where b: "b = JArr ys"
    by (cases b) simp_all
  with JArr.prems have all2: "list_all2 same_content xs ys"
    and wx: "\<forall>x\<in>set xs. wf_json x" and wy: "\<forall>y\<in>set ys. wf_json y"
    by simp_all
  have "list_all2 (\<lambda>x y. dumps_indent m x = dumps_indent m y) xs ys" for m
    using all2 wx wy JArr.IH by (auto elim!: list.rel_mono_strong)
  then have "map (dumps_indent m) xs = map (dumps_indent m) ys" for m
    by (rule map_eq_of_list_all2)
  moreover have "xs = [] \<longleftrightarrow> ys = []"
    using all2 by (auto dest: list_all2_lengthD)
  ultimately show ?case
    by (simp add: b)
next
  case (JObj kvs)
  from JObj.prems(3) obtain ys where b: "b = JObj ys"
    by (cases b) simp_all
  with JObj.prems have len: "length kvs = length ys"
    and all: "\<forall>(k, v) \<in> set kvs.
                case map_of ys k of None \<Rightarrow> False | Some w \<Rightarrow> same_content v w"
    and dx: "distinct (map fst kvs)" and dy: "distinct (map fst ys)"
    and wx: "\<And>k v. (k, v) \<in> set kvs \<Longrightarrow> wf_json v"
    and wy: "\<And>k v. (k, v) \<in> set ys \<Longrightarrow> wf_json v"
    by auto
  have ent: "\<exists>w. map_of ys k = Some w \<and> same_content v w" if "(k, v) \<in> set kvs" for k v
    using all that by (cases "map_of ys k") auto
  define g :: "string \<times> json \<Rightarrow> string \<times> string"
    where "g = (\<lambda>(k, v). (k, dumps_indent (n + 1) v))"
  have fst_g: "fst (g x) = fst x" for x
    by (simp add: g_def split: prod.splits)
  have "sort_key fst (map g kvs) = sort_key fst (map g ys)"
  proof (rule sort_key_fst_unique)
    show "distinct (map fst (map g kvs))" "distinct (map fst (map g ys))"
      using dx dy by (simp_all add: fst_g comp_def)
    show "length (map g kvs) = length (map g ys)"
      using len by simp
  next
    fix k t
    assume "(k, t) \<in> set (map g kvs)"
    then obtain v where v: "(k, v) \<in> set kvs" and t: "t = dumps_indent (n + 1) v"
      by (auto simp: g_def)
    from ent [OF v] obtain w where w: "map_of ys k = Some w" and vw: "same_content v w"
      by blast
    from w have in_ys: "(k, w) \<in> set ys"
      by (rule map_of_SomeD)
    have "dumps_indent (n + 1) v = dumps_indent (n + 1) w"
      using JObj.IH [of "(k, v)" v w "n + 1"] v wx [OF v] wy [OF in_ys] vw by simp
    moreover have "map_of (map g ys) k = Some (dumps_indent (n + 1) w)"
      using w by (simp add: g_def map_of_map)
    ultimately show "map_of (map g ys) k = Some t"
      by (simp add: t)
  qed
  then have "map g (sorted_items kvs) = map g (sorted_items ys)"
    by (simp add: sorted_items_def sort_key_map_fst [of g, OF fst_g])
  then have "map ((\<lambda>(k, t). encode_str k @ '': '' @ t) \<circ> g) (sorted_items kvs)
           = map ((\<lambda>(k, t). encode_str k @ '': '' @ t) \<circ> g) (sorted_items ys)"
    by (simp flip: map_map)
  moreover have "(\<lambda>(k, t). encode_str k @ '': '' @ t) \<circ> g
               = (\<lambda>(k, v). encode_str k @ '': '' @ dumps_indent (n + 1) v)"
    by (auto simp: g_def fun_eq_iff)
  moreover have "kvs = [] \<longleftrightarrow> ys = []"
    using len by auto
  ultimately show ?case
    by (simp add: b)
qed (cases b; simp)+

lemma same_content_refl: "wf_json a \<Longrightarrow> same_content a a"
proof (induction a)
  case (JArr xs)
  then show ?case
    by (auto intro: list.rel_refl_strong)
next
  case (JObj kvs)
  then have dx: "distinct (map fst kvs)"
    and wf: "\<And>k v. (k, v) \<in> set kvs \<Longrightarrow> wf_json v"
    by auto
  have "case map_of kvs k of None \<Rightarrow> False | Some w \<Rightarrow> same_content v w"
    if kv: "(k, v) \<in> set kvs" for k v
  proof -
    from dx kv have "map_of kvs k = Some v"
      by (rule map_of_is_SomeI)
    moreover have "same_content v v"
      using JObj.IH [of "(k, v)" v] kv wf [OF kv] by simp
    ultimately show ?thesis
      by simp
  qed
  then show ?case
    by auto
qed simp_all

text \<open>
  C8. The text of a snapshot is \<open>{}\<close> for empty data, and otherwise an opening brace,
  the items one to a line behind two spaces, separated by commas, in the order of their
  keys sorted lexicographically, each item its quoted key, a colon with a space and the
  text of its value at the next level, and a closing brace on a line of its own. Two
  snapshots with the same content, whatever the insertion order of their keys, are
  serialized to the same text, and a snapshot has the same content as itself, so
  serializing it again gives the same text (\<open>to_json\<close> reads the data and changes
  nothing); the condition that no dict holds a key twice, which every Python value meets,
  holds of every snapshot that \<open>collect\<close> returns. The sorted items are the items of the
  data, their keys the sorted keys of the data. At every
  nesting level \<open>n\<close> a dict and a list put each item on a line of its own behind
  \<open>2 * (n + 1)\<close> spaces and the closing bracket behind \<open>2 * n\<close> spaces.
\<close>

theorem to_json_deterministic:
  "(wf_json (JObj (data s)) \<and> wf_json (JObj (data t))
      \<and> same_content (JObj (data s)) (JObj (data t)) \<longrightarrow> to_json s = to_json t) \<and>
   (wf_json (JObj (data s)) \<longrightarrow> same_content (JObj (data s)) (JObj (data s))) \<and>
   (\<forall>h. collect h = Inr s \<longrightarrow> wf_json (JObj (data s))) \<and>
   to_json s
     = (if data s = [] then ''{}''
        else ''{'' @ [LF] @ ''  ''
             @ join ('','' @ [LF] @ ''  '')
                 (map (\<lambda>(k, v). encode_str k @ '': '' @ dumps_indent 1 v)
                      (sorted_items (data s)))
             @ [LF] @ ''}'') \<and>
   map fst (sorted_items (data s)) = sort (map fst (data s)) \<and>
   sorted (map fst (sorted_items (data s))) \<and>
   set (sorted_items (data s)) = set (data s) \<and>
   length (sorted_items (data s)) = length (data s) \<and>
   (\<forall>level kvs. kvs \<noteq> [] \<longrightarrow>
      dumps_indent level (JObj kvs)
        = ''{'' @ LF # replicate (2 * (level + 1)) CHR '' ''
          @ join ('','' @ LF # replicate (2 * (level + 1)) CHR '' '')
              (map (\<lambda>(k, v). encode_str k @ '': '' @ dumps_indent (level + 1) v)
                   (sorted_items kvs))
          @ LF # replicate (2 * level) CHR '' '' @ ''}'') \<and>
   (\<forall>level xs. xs \<noteq> [] \<longrightarrow>
      dumps_indent level (JArr xs)
        = ''['' @ LF # replicate (2 * (level + 1)) CHR '' ''
          @ join ('','' @ LF # replicate (2 * (level + 1)) CHR '' '')
              (map (dumps_indent (level + 1)) xs)
          @ LF # replicate (2 * level) CHR '' '' @ '']'')"
proof (intro conjI allI impI)
  assume "wf_json (JObj (data s)) \<and> wf_json (JObj (data t))
      \<and> same_content (JObj (data s)) (JObj (data t))"
  then show "to_json s = to_json t"
    unfolding to_json_def by (blast intro: same_content_dumps_indent)
next
  assume "wf_json (JObj (data s))"
  then show "same_content (JObj (data s)) (JObj (data s))"
    by (rule same_content_refl)
next
  fix h
  assume "collect h = Inr s"
  then show "wf_json (JObj (data s))"
    by (rule collect_wf_json)
next
  show "to_json s
     = (if data s = [] then ''{}''
        else ''{'' @ [LF] @ ''  ''
             @ join ('','' @ [LF] @ ''  '')
                 (map (\<lambda>(k, v). encode_str k @ '': '' @ dumps_indent 1 v)
                      (sorted_items (data s)))
             @ [LF] @ ''}'')"
    by (simp add: to_json_def newline_indent_def eval_nat_numeral)
  show "map fst (sorted_items (data s)) = sort (map fst (data s))"
    by (rule map_fst_sorted_items)
  show "sorted (map fst (sorted_items (data s)))"
    by (simp add: sorted_items_def)
  show "set (sorted_items (data s)) = set (data s)"
    by (simp add: sorted_items_def)
  show "length (sorted_items (data s)) = length (data s)"
    by (simp add: sorted_items_def)
next
  fix level :: nat and kvs :: "(string \<times> json) list"
  assume "kvs \<noteq> []"
  then show "dumps_indent level (JObj kvs)
        = ''{'' @ LF # replicate (2 * (level + 1)) CHR '' ''
          @ join ('','' @ LF # replicate (2 * (level + 1)) CHR '' '')
              (map (\<lambda>(k, v). encode_str k @ '': '' @ dumps_indent (level + 1) v)
                   (sorted_items kvs))
          @ LF # replicate (2 * level) CHR '' '' @ ''}''"
    by (simp add: newline_indent_def)
next
  fix level :: nat and xs :: "json list"
  assume "xs \<noteq> []"
  then show "dumps_indent level (JArr xs)
        = ''['' @ LF # replicate (2 * (level + 1)) CHR '' ''
          @ join ('','' @ LF # replicate (2 * (level + 1)) CHR '' '')
              (map (dumps_indent (level + 1)) xs)
          @ LF # replicate (2 * level) CHR '' '' @ '']''"
    by (simp add: newline_indent_def)
qed

text \<open>
  The theorem at \<open>snapshot_ab\<close> and \<open>snapshot_ba\<close>, which hold the same content in
  different insertion orders: both are serialized to the text written out here, its keys
  sorted at both levels.
\<close>

theorem to_json_deterministic_witness:
  \<open>data snapshot_ab \<noteq> data snapshot_ba \<and>
   to_json snapshot_ba = to_json snapshot_ab \<and>
   to_json snapshot_ab =
     ''{'' @ [LF] @
     ''  "load_average": null,'' @ [LF] @
     ''  "memory": {'' @ [LF] @
     ''    "MemFree": "8 kB",'' @ [LF] @
     ''    "MemTotal": "16 kB"'' @ [LF] @
     ''  },'' @ [LF] @
     ''  "timestamp": 1.5'' @ [LF] @
     ''}''\<close>
proof -
  note main = to_json_deterministic [of snapshot_ab snapshot_ba]
  have h: "wf_json (JObj (data snapshot_ab)) \<and> wf_json (JObj (data snapshot_ba)) \<and>
   same_content (JObj (data snapshot_ab)) (JObj (data snapshot_ba))"
    by (simp add: snapshot_ab_def snapshot_ba_def)
  have eq: "to_json snapshot_ab = to_json snapshot_ba"
    using main [THEN conjunct1] h by blast
  have ne: "data snapshot_ab \<noteq> data snapshot_ba"
    by (simp add: snapshot_ab_def snapshot_ba_def)
  have items: "sorted_items (data snapshot_ab)
      = [(''load_average'', JNull),
         (''memory'', JObj [(''MemTotal'', JStr ''16 kB''), (''MemFree'', JStr ''8 kB'')]),
         (''timestamp'', JFloat ''1.5'')]"
    by (simp add: snapshot_ab_def sorted_items_def)
  have \<open>to_json snapshot_ab =
     ''{'' @ [LF] @
     ''  "load_average": null,'' @ [LF] @
     ''  "memory": {'' @ [LF] @
     ''    "MemFree": "8 kB",'' @ [LF] @
     ''    "MemTotal": "16 kB"'' @ [LF] @
     ''  },'' @ [LF] @
     ''  "timestamp": 1.5'' @ [LF] @
     ''}''\<close>
    unfolding main [THEN conjunct2, THEN conjunct2, THEN conjunct2, THEN conjunct1] items
    by (simp add: snapshot_ab_def dumps_defs LF_def eval_nat_numeral)
  with eq ne show ?thesis
    by simp
qed

section \<open>The collector on concrete hosts\<close>

lemma show_int_4242: "show_int 4242 = ''4242''"
  by (simp add: show_int_def digits.simps digit_char_def)

lemma parse_meminfo_text:
  "parse_text meminfo_text
     = [(''MemTotal'', JStr ''16384 kB''), (''MemFree'', JStr ''8192 kB'')]"
  by (simp add: meminfo_text_def parse_defs str_defs)

lemma parse_status_text:
  "parse_text status_text = [(''Name'', JStr ''python3''), (''Pid'', JStr ''4242'')]"
  by (simp add: status_text_def parse_defs str_defs)

lemma linux_host_files:
  "os_getpid linux_host = 4242"
  "os_path_exists linux_host ''/proc/meminfo''"
  "os_path_exists linux_host ''/proc/4242/status''"
  "open_text linux_host ''/proc/meminfo'' = Inr (meminfo_text, None)"
  "open_text linux_host ''/proc/4242/status'' = Inr (status_text, None)"
  by (simp_all add: linux_host_def)

lemma memory_info_linux:
  "memory_info (linux_host\<lparr>os_getloadavg := la\<rparr>)
     = Inr [(''MemTotal'', JStr ''16384 kB''), (''MemFree'', JStr ''8192 kB'')]"
  by (simp add: memory_info_def meminfo_path_def parse_key_value_file_def linux_host_files
      parse_meminfo_text dict_update_def)

lemma process_info_linux:
  "process_info (linux_host\<lparr>os_getloadavg := la\<rparr>) =
     Inr [(''pid'', JInt 4242), (''cpu_time_user'', JFloat ''0.03''),
          (''cpu_time_system'', JFloat ''0.01''),
          (''cpu_time_children_user'', JFloat ''0.0''),
          (''cpu_time_children_system'', JFloat ''0.0''),
          (''elapsed'', JFloat ''17011.2''), (''Name'', JStr ''python3''),
          (''Pid'', JStr ''4242'')]"
  by (simp add: process_info_def status_path_def parse_key_value_file_def linux_host_files
      show_int_4242 parse_status_text dict_update_def)
    (simp add: linux_host_def)

lemma collect_linux_host:
  "collect (linux_host\<lparr>os_getloadavg := Some (Inr (one, five, fifteen))\<rparr>)
     = Inr (linux_snapshot (JObj [(''1min'', JFloat one), (''5min'', JFloat five),
                                  (''15min'', JFloat fifteen)]))"
  by (simp add: collect_def load_average_def memory_info_linux process_info_linux
      linux_snapshot_def platform_info_def)
    (simp add: linux_host_def)

lemma collect_host_without_getloadavg:
  "collect host_without_getloadavg = Inr (linux_snapshot JNull)"
  unfolding host_without_getloadavg_def
  by (simp add: collect_def load_average_def memory_info_linux process_info_linux
      linux_snapshot_def platform_info_def)
    (simp add: linux_host_def)

text \<open>What the \<open>try\<close> of the parser absorbs, and what it lets through.\<close>

lemma parse_key_value_file_absorbs:
  assumes "case open_text h path of
             Inl e \<Rightarrow> is_OSError e
           | Inr (text, failure) \<Rightarrow> (case failure of None \<Rightarrow> True | Some e \<Rightarrow> is_OSError e)"
  shows "\<exists>parsed. parse_key_value_file h path = Inr parsed"
  using assms by (auto simp: parse_key_value_file_def split: sum.splits option.splits)

lemma parse_key_value_file_missing:
  "open_text h path = Inl (OSError m) \<Longrightarrow> parse_key_value_file h path = Inr []"
  by (simp add: parse_key_value_file_def)

text \<open>
  \<open>collect\<close> returns a snapshot whenever \<open>os.getloadavg\<close> is absent or returns, and
  opening and reading the two files raises nothing but \<open>OSError\<close>.
\<close>

lemma collect_returns:
  assumes la: "\<And>e. os_getloadavg h \<noteq> Some (Inl e)"
    and files: "\<And>path. case open_text h path of
             Inl e \<Rightarrow> is_OSError e
           | Inr (text, failure) \<Rightarrow> (case failure of None \<Rightarrow> True | Some e \<Rightarrow> is_OSError e)"
  shows "\<exists>s. collect h = Inr s"
proof -
  have "\<exists>v. load_average h = Inr v"
  proof (cases "os_getloadavg h")
    case None
    then show ?thesis by (simp add: load_average_def)
  next
    case (Some r)
    with la obtain one five fifteen where "r = Inr (one, five, fifteen)"
      by (cases r) auto
    with Some show ?thesis by (simp add: load_average_def)
  qed
  then obtain v where "load_average h = Inr v" ..
  moreover have "\<exists>mem. memory_info h = Inr mem"
    using parse_key_value_file_absorbs [OF files, of meminfo_path]
    by (cases "os_path_exists h meminfo_path") (auto simp: memory_info_def)
  then obtain mem where "memory_info h = Inr mem" ..
  moreover have "\<exists>proc. process_info h = Inr proc"
    using parse_key_value_file_absorbs [OF files, of "status_path h"]
    by (cases "os_path_exists h (status_path h)") (auto simp: process_info_def Let_def)
  then obtain proc where "process_info h = Inr proc" ..
  ultimately show ?thesis
    by (simp add: collect_def)
qed

text \<open>A memory file that exists and cannot be opened gives an empty section.\<close>

lemma collect_host_meminfo_denied:
  "snapshot_get (collect host_meminfo_denied) ''memory'' = Some (JObj [])"
  by (simp add: snapshot_get_def collect_def load_average_def memory_info_def process_info_def
      parse_key_value_file_def meminfo_path_def status_path_def host_meminfo_denied_def
      linux_host_def show_int_4242 dict_update_def dict_get_def)

section \<open>The load average in the snapshot\<close>

text \<open>
  C1, as amended. Every snapshot that \<open>collect\<close> returns has the five keys
  \<open>timestamp\<close>, \<open>platform\<close>, \<open>load_average\<close>, \<open>memory\<close>, \<open>process\<close>. On a host
  without a load-average facility the key \<open>load_average\<close> is present and its value is
  \<open>None\<close> (written \<open>null\<close>); on a host whose facility returns, the value is the dict
  of the three figures under \<open>1min\<close>, \<open>5min\<close>, \<open>15min\<close>.
\<close>

theorem collect_load_average_entry:
  assumes "collect h = Inr s"
  shows "map fst (data s)
           = [''timestamp'', ''platform'', ''load_average'', ''memory'', ''process''] \<and>
         (os_getloadavg h = None \<longrightarrow> dict_get (data s) ''load_average'' = Some JNull) \<and>
         (\<forall>one five fifteen. os_getloadavg h = Some (Inr (one, five, fifteen)) \<longrightarrow>
            dict_get (data s) ''load_average''
              = Some (JObj [(''1min'', JFloat one), (''5min'', JFloat five),
                            (''15min'', JFloat fifteen)]))"
  using assms
  by (auto simp: collect_def load_average_def dict_get_def split: sum.splits option.splits)

text \<open>
  The theorem at \<open>host_without_getloadavg\<close>, where \<open>collect\<close> returns
  \<open>linux_snapshot JNull\<close>, and at \<open>linux_host\<close>, whose facility returns three figures.
\<close>

theorem collect_load_average_entry_witness:
  "collect host_without_getloadavg = Inr (linux_snapshot JNull) \<and>
   os_getloadavg host_without_getloadavg = None \<and>
   dict_get (data (linux_snapshot JNull)) ''load_average'' = Some JNull \<and>
   map fst (data (linux_snapshot JNull))
     = [''timestamp'', ''platform'', ''load_average'', ''memory'', ''process''] \<and>
   os_getloadavg linux_host = Some (Inr (''0.5'', ''0.25'', ''0.1'')) \<and>
   snapshot_get (collect linux_host) ''load_average''
     = Some (JObj [(''1min'', JFloat ''0.5''), (''5min'', JFloat ''0.25''),
                   (''15min'', JFloat ''0.1'')])"
proof -
  have c: "collect host_without_getloadavg = Inr (linux_snapshot JNull)"
    by (rule collect_host_without_getloadavg)
  have n: "os_getloadavg host_without_getloadavg = None"
    by (simp add: host_without_getloadavg_def)
  have l: "os_getloadavg linux_host = Some (Inr (''0.5'', ''0.25'', ''0.1''))"
    by (simp add: linux_host_def)
  have "linux_host = linux_host\<lparr>os_getloadavg := Some (Inr (''0.5'', ''0.25'', ''0.1''))\<rparr>"
    by (simp add: linux_host_def)
  then have d: "collect linux_host
      = Inr (linux_snapshot (JObj [(''1min'', JFloat ''0.5''), (''5min'', JFloat ''0.25''),
                                   (''15min'', JFloat ''0.1'')]))"
    using collect_linux_host [of "''0.5''" "''0.25''" "''0.1''"] by simp
  have "snapshot_get (collect linux_host) ''load_average''
     = Some (JObj [(''1min'', JFloat ''0.5''), (''5min'', JFloat ''0.25''),
                   (''15min'', JFloat ''0.1'')])"
    using collect_load_average_entry [OF d] l by (simp add: snapshot_get_def d)
  then show ?thesis
    using collect_load_average_entry [OF c] c n l by blast
qed

text \<open>
  C1 as stated fails: on \<open>host_without_getloadavg\<close> the snapshot has the key
  \<open>load_average\<close>, with the value \<open>None\<close>.
\<close>

theorem load_average_key_counterexample:
  "os_getloadavg host_without_getloadavg = None \<and>
   snapshot_get (collect host_without_getloadavg) ''load_average'' = Some JNull"
proof
  show "os_getloadavg host_without_getloadavg = None"
    by (simp add: host_without_getloadavg_def)
  show "snapshot_get (collect host_without_getloadavg) ''load_average'' = Some JNull"
    by (simp add: collect_host_without_getloadavg snapshot_get_def dict_get_def
        linux_snapshot_def)
qed

section \<open>Failures that leave the collector\<close>

text \<open>
  C3: \<open>collect\<close> is claimed never to raise, whatever the state of the optional
  facilities. The code raises on a host where \<open>os.getloadavg\<close> exists and raises
  \<open>OSError\<close> (\<open>_load_average\<close> has no \<open>try\<close>), and on a host whose status file is
  not valid UTF-8 (the parser catches \<open>OSError\<close> only).
\<close>

theorem collect_raises:
  "collect host_loadavg_unobtainable = Inl (OSError ''Load averages are unobtainable'') \<and>
   collect host_status_not_utf8 = Inl UnicodeDecodeError"
proof
  show "collect host_loadavg_unobtainable = Inl (OSError ''Load averages are unobtainable'')"
    by (simp add: collect_def load_average_def host_loadavg_unobtainable_def)
  have "process_info host_status_not_utf8 = Inl UnicodeDecodeError"
    by (simp add: process_info_def status_path_def parse_key_value_file_def
        host_status_not_utf8_def linux_host_def show_int_4242)
  moreover have "\<exists>mem. memory_info host_status_not_utf8 = Inr mem"
    by (simp add: memory_info_def meminfo_path_def parse_key_value_file_def
        host_status_not_utf8_def linux_host_def)
  moreover have "\<exists>la. load_average host_status_not_utf8 = Inr la"
    by (simp add: load_average_def host_status_not_utf8_def linux_host_def)
  ultimately show "collect host_status_not_utf8 = Inl UnicodeDecodeError"
    by (auto simp: collect_def)
qed

section \<open>Extraction of the analysis\<close>

lemma first_content_Cons:
  "first_content (c # rest)
     = (case message_content c of Some s \<Rightarrow> strip s | None \<Rightarrow> first_content rest)"
  by (auto simp: message_content_def py_get_def split: json.splits option.splits)

lemma first_textual_content_Cons:
  "first_textual_content (c # rest)
     = (case message_content c of Some s \<Rightarrow> strip s | None \<Rightarrow> first_textual_content rest)"
  by (simp add: first_textual_content_def map_filter_simps split: option.splits)

text \<open>The loop returns the first textual content, trimmed.\<close>

lemma first_content_eq: "first_content cs = first_textual_content cs"
proof (induction cs)
  case Nil
  show ?case by (simp add: first_textual_content_def map_filter_simps)
next
  case (Cons c cs)
  then show ?case
    by (simp only: first_content_Cons first_textual_content_Cons)
qed

lemma first_content_without_text:
  "\<forall>c \<in> set cs. message_content c = None \<Longrightarrow> first_content cs = []"
  by (induction cs) (simp_all add: first_content_Cons del: first_content.simps(2))

lemma message_content_JStr: "message_content (JStr s) = None"
  by (simp add: message_content_def)

text \<open>
  \<open>choices\<close> that is a dict or a string is iterated too; its items are strings, which
  have no message.
\<close>

lemma iter_items_not_list:
  assumes "iter_items v = Some cs" and "\<forall>xs. v \<noteq> JArr xs"
  shows "\<forall>c \<in> set cs. message_content c = None"
  using assms by (cases v) (auto simp: message_content_JStr)

text \<open>
  C2, as amended. For every decoded response that is a JSON object, the extracted
  analysis is the message content of the first choice of its choices list, in order,
  that has a textual message content, whether that text is empty or not, with the
  surrounding whitespace trimmed; it is the empty string if no choice has a textual
  content. The response \<open>{"choices":[{"message":{"content":" hello "}}]}\<close> yields
  \<open>hello\<close>.
\<close>

theorem extract_message_first_text:
  "extract_message (JObj d) = Inr (first_textual_content (choices_list d)) \<and>
   extract_message hello_response = Inr ''hello''"
proof
  show "extract_message (JObj d) = Inr (first_textual_content (choices_list d))"
  proof (cases "\<exists>cs. dict_get d ''choices'' = Some (JArr cs)")
    case True
    then show ?thesis
      by (auto simp: extract_message_def py_get_def first_content_eq choices_list_def)
  next
    case False
    then have no_list: "\<forall>xs. py_get d ''choices'' \<noteq> JArr xs"
      by (auto simp: py_get_def split: option.splits)
    from False have "choices_list d = []"
      by (auto simp: choices_list_def split: option.splits json.splits)
    then have spec: "first_textual_content (choices_list d) = []"
      by (simp add: first_textual_content_def map_filter_simps)
    show ?thesis
    proof (cases "iter_items (py_get d ''choices'')")
      case None
      with spec show ?thesis by (simp add: extract_message_def)
    next
      case (Some items)
      from Some no_list have "\<forall>c \<in> set items. message_content c = None"
        by (rule iter_items_not_list)
      then have "first_content items = []"
        by (rule first_content_without_text)
      with Some spec show ?thesis by (simp add: extract_message_def)
    qed
  qed
  show "extract_message hello_response = Inr ''hello''"
    by (simp add: extract_message_def hello_response_def py_get_def dict_get_def str_defs)
qed

text \<open>
  The theorem at a response whose first choice has the empty string as content and whose
  second has \<open>hi\<close>: the analysis is the empty string.
\<close>

theorem extract_message_first_text_witness:
  "extract_message (JObj [(''id'', JStr ''x''), (''choices'', JArr choices_empty_first)])
     = Inr []"
proof -
  have "choices_list [(''id'', JStr ''x''), (''choices'', JArr choices_empty_first)]
          = choices_empty_first"
    by (simp add: choices_list_def dict_get_def)
  moreover have "first_textual_content choices_empty_first = []"
    by (simp add: first_textual_content_def choices_empty_first_def map_filter_simps
        message_content_def dict_get_def str_defs)
  ultimately show ?thesis
    using extract_message_first_text
      [of "[(''id'', JStr ''x''), (''choices'', JArr choices_empty_first)]"]
    by simp
qed

text \<open>
  C2 as stated fails: for \<open>choices_empty_first\<close> the first \<^emph>\<open>non-empty\<close> textual
  content is \<open>hi\<close>, and the code returns the empty content of the first choice.
\<close>

theorem extract_message_nonempty_counterexample:
  "extract_message (JObj [(''choices'', JArr choices_empty_first)])
     \<noteq> Inr (spec_first_nonempty_content choices_empty_first)"
proof -
  have "extract_message (JObj [(''choices'', JArr choices_empty_first)]) = Inr []"
    by (simp add: extract_message_def py_get_def dict_get_def choices_empty_first_def str_defs)
  moreover have "spec_first_nonempty_content choices_empty_first = ''hi''"
    by (simp add: spec_first_nonempty_content_def choices_empty_first_def map_filter_simps
        message_content_def dict_get_def str_defs)
  ultimately show ?thesis
    by simp
qed

text \<open>
  For every decoded response that is a JSON object, extraction returns the
  empty string, and raises nothing, whenever \<open>choices\<close> is absent, or is not a list, or
  is a list (the empty one among them) none of whose choices has a textual message
  content, that is, each choice is no object, or its \<open>message\<close> is missing or no
  object, or its \<open>content\<close> is missing or no string. The responses \<open>{"choices":[]}\<close> and
  \<open>{}\<close> both yield the empty string.
\<close>

lemma extract_message_degenerate:
  "((\<forall>cs. dict_get d ''choices'' = Some (JArr cs)
           \<longrightarrow> (\<forall>c \<in> set cs. message_content c = None))
      \<longrightarrow> extract_message (JObj d) = Inr []) \<and>
   extract_message (JObj [(''choices'', JArr [])]) = Inr [] \<and>
   extract_message (JObj []) = Inr []"
proof (intro conjI impI)
  assume h: "\<forall>cs. dict_get d ''choices'' = Some (JArr cs)
           \<longrightarrow> (\<forall>c \<in> set cs. message_content c = None)"
  show "extract_message (JObj d) = Inr []"
  proof (cases "iter_items (py_get d ''choices'')")
    case None
    then show ?thesis by (simp add: extract_message_def)
  next
    case (Some items)
    have "\<forall>c \<in> set items. message_content c = None"
    proof (cases "\<exists>xs. py_get d ''choices'' = JArr xs")
      case True
      then obtain xs where xs: "py_get d ''choices'' = JArr xs" ..
      then have "dict_get d ''choices'' = Some (JArr xs)"
        by (auto simp: py_get_def split: option.splits)
      with h xs Some show ?thesis by auto
    next
      case False
      with Some show ?thesis by (auto intro: iter_items_not_list [rule_format])
    qed
    then have "first_content items = []"
      by (rule first_content_without_text)
    with Some show ?thesis by (simp add: extract_message_def)
  qed
next
  show "extract_message (JObj [(''choices'', JArr [])]) = Inr []"
    by (simp add: extract_message_def py_get_def dict_get_def)
  show "extract_message (JObj []) = Inr []"
    by (simp add: extract_message_def py_get_def dict_get_def)
qed

text \<open>
  A list of choices without textual content, \<open>choices\<close> that is a number and
  \<open>choices\<close> that is a string.
\<close>

lemma extract_message_degenerate_examples:
  "extract_message (JObj [(''choices'', JArr choices_without_text)]) = Inr [] \<and>
   extract_message (JObj [(''choices'', JInt 5)]) = Inr [] \<and>
   extract_message (JObj [(''choices'', JStr ''abc'')]) = Inr []"
proof -
  have a: "\<forall>c \<in> set choices_without_text. message_content c = None"
    by (simp add: choices_without_text_def message_content_def dict_get_def)
  then have "\<forall>cs. dict_get [(''choices'', JArr choices_without_text)] ''choices'' = Some (JArr cs)
           \<longrightarrow> (\<forall>c \<in> set cs. message_content c = None)"
    by (simp add: dict_get_def)
  then have "extract_message (JObj [(''choices'', JArr choices_without_text)]) = Inr []"
    by (rule extract_message_degenerate [THEN conjunct1, THEN mp])
  moreover have "extract_message (JObj [(''choices'', JInt 5)]) = Inr []"
    by (rule extract_message_degenerate [THEN conjunct1, THEN mp])
      (simp add: dict_get_def)
  moreover have "extract_message (JObj [(''choices'', JStr ''abc'')]) = Inr []"
    by (rule extract_message_degenerate [THEN conjunct1, THEN mp])
      (simp add: dict_get_def)
  ultimately show ?thesis
    by blast
qed

text \<open>
  C7: extraction is claimed to return the empty string, and to raise nothing, for every
  decoded response without usable choices. The function tests the type of \<open>choices\<close>,
  of each choice, of its \<open>message\<close> and of its \<open>content\<close>, and calls
  \<open>response_json.get\<close> on the response itself untested: the bodies \<open>[]\<close> and
  \<open>null\<close> decode to a list and to \<open>None\<close>, which have no \<open>choices\<close>, and the call
  raises \<open>AttributeError\<close> on them.
\<close>

theorem extract_message_not_object:
  "extract_message (JArr []) = Inl (AttributeError ''get'') \<and>
   extract_message JNull = Inl (AttributeError ''get'')"
  by (simp add: extract_message_def)

section \<open>The request\<close>

text \<open>\<open>analyze\<close> sends one request, whatever the exchange does.\<close>

lemma analyze_sends_once:
  "sent (snd (analyze json_loads a s net)) = sent net @ [build_request a s]"
  by (simp add: analyze_def Let_def split: exchange.splits option.splits sum.splits)

text \<open>
  C9. For every snapshot and analyzer, the request that \<open>analyze\<close> sends is a \<open>POST\<close>
  to the configured endpoint with the headers \<open>Content-Type: application/json\<close> and
  \<open>Authorization: Bearer <api_key>\<close>; its body is the JSON text of an object with the
  model name, a list of exactly two messages (the fixed system instruction, then a user
  message that embeds the snapshot's JSON between \<open>```json\<close> and \<open>```\<close>) and the
  temperature \<open>0.2\<close>.
\<close>

theorem build_request_shape:
  \<open>http_method (build_request a s) = ''POST'' \<and>
   full_url (build_request a s) = endpoint a \<and>
   headers (build_request a s)
     = [(''Content-Type'', ''application/json''), (''Authorization'', ''Bearer '' @ api_key a)] \<and>
   body_data (build_request a s) = dumps (payload a s) \<and>
   payload a s
     = JObj [(''model'', JStr (model a)),
             (''messages'',
                JArr [JObj [(''role'', JStr ''system''), (''content'', JStr system_instruction)],
                      JObj [(''role'', JStr ''user''), (''content'', JStr (user_content s))]]),
             (''temperature'', JFloat ''0.2'')] \<and>
   user_content s
     = ''Here is a telemetry snapshot. Summarize notable points and suggest next steps if something looks problematic.''
       @ [LF, LF] @ ''```json'' @ [LF] @ to_json s @ [LF] @ ''```'' \<and>
   dumps (payload a s)
     = ''{"model": '' @ encode_str (model a)
       @ '', "messages": [{"role": "system", "content": '' @ encode_str system_instruction
       @ ''}, {"role": "user", "content": '' @ encode_str (user_content s)
       @ ''}], "temperature": 0.2}'' \<and>
   sent (snd (analyze json_loads a s net)) = sent net @ [build_request a s]\<close>
proof (intro conjI)
  show "sent (snd (analyze json_loads a s net)) = sent net @ [build_request a s]"
    by (rule analyze_sends_once)
  show \<open>dumps (payload a s)
     = ''{"model": '' @ encode_str (model a)
       @ '', "messages": [{"role": "system", "content": '' @ encode_str system_instruction
       @ ''}, {"role": "user", "content": '' @ encode_str (user_content s)
       @ ''}], "temperature": 0.2}''\<close>
    by (simp add: payload_def encode_str_def escape_char_def dquote_def backslash_def)
qed (simp_all add: build_request_def payload_def user_content_def)

section \<open>Errors of the exchange\<close>


text \<open>A \<open>URLError\<close> becomes the transport error, with the error's description.\<close>

lemma analyze_url_error:
  "respond net (build_request a s) (request_timeout a) = URLError description
     \<Longrightarrow> fst (analyze json_loads a s net) = Inl (transport_error description)"
  by (simp add: analyze_def Let_def)







text \<open>
  C4: every call in which no response arrives within the timeout is claimed to raise
  the transport error. \<open>urlopen\<close> turns into \<open>URLError\<close> only the failures of
  connecting and sending; a timeout while it waits for the response is raised as
  \<open>TimeoutError\<close>, which is no \<open>URLError\<close>, so neither handler of \<open>analyze\<close> applies
  and the exception leaves \<open>analyze\<close> as it is, after one request.
\<close>

theorem analyze_response_timeout:
  "fst (analyze loads_example example_analyzer small_snapshot
          (net_of (Raises (TimeoutError ''timed out''))))
     = Inl (TimeoutError ''timed out'') \<and>
   TimeoutError ''timed out'' \<noteq> transport_error ''timed out'' \<and>
   sent (snd (analyze loads_example example_analyzer small_snapshot
                (net_of (Raises (TimeoutError ''timed out'')))))
     = [build_request example_analyzer small_snapshot]"
  by (simp add: analyze_def Let_def net_of_def transport_error_def)

text \<open>
  C10, as amended. For every successful response whose body cannot be decoded,
  \<open>analyze\<close> lets the exception of the decoding through as it is: the
  \<open>UnicodeDecodeError\<close> of \<open>decode("utf-8")\<close> for a body that is not valid UTF-8, and
  whatever \<open>json.loads\<close> raises on the text of the body, \<open>JSONDecodeError\<close> among
  them. \<open>JSONDecodeError\<close> and \<open>UnicodeDecodeError\<close> are neither the
  protocol error nor the transport error, and no analysis is returned. The statement
  holds whatever texts \<open>json.loads\<close> rejects; which they are is the library's matter.
\<close>

theorem analyze_decoding_error:
  "(respond net (build_request a s) (request_timeout a) = Response_text body
      \<and> json_loads body = Inl e
      \<longrightarrow> analyze json_loads a s net = (Inl e, net\<lparr>sent := sent net @ [build_request a s]\<rparr>)) \<and>
   (respond net (build_request a s) (request_timeout a) = Response_undecodable
      \<longrightarrow> analyze json_loads a s net
            = (Inl UnicodeDecodeError, net\<lparr>sent := sent net @ [build_request a s]\<rparr>)) \<and>
   (\<forall>code b. JSONDecodeError \<noteq> protocol_error code b
             \<and> UnicodeDecodeError \<noteq> protocol_error code b) \<and>
   (\<forall>d. JSONDecodeError \<noteq> transport_error d \<and> UnicodeDecodeError \<noteq> transport_error d)"
  by (simp add: analyze_def Let_def protocol_error_def transport_error_def)

text \<open>The theorem at a successful response with an HTML body, which \<open>json.loads\<close> rejects.\<close>

theorem analyze_decoding_error_witness:
  "fst (analyze loads_example example_analyzer small_snapshot (net_of (Response_text html_body)))
     = Inl JSONDecodeError"
proof -
  have h: "respond (net_of (Response_text html_body))
     (build_request example_analyzer small_snapshot) (request_timeout example_analyzer)
     = Response_text html_body \<and>
   loads_example html_body = Inl JSONDecodeError"
    by (simp add: net_of_def loads_example_def hello_body_def html_body_def nan_body_def)
  show ?thesis
    using analyze_decoding_error
      [of "net_of (Response_text html_body)" example_analyzer small_snapshot
          html_body loads_example JSONDecodeError, THEN conjunct1, THEN mp, OF h]
    by simp
qed

text \<open>
  C10 as stated fails: a successful response whose body is not valid UTF-8 has a body
  that is not valid JSON, and the exception raised is \<open>UnicodeDecodeError\<close>; and the body
  \<open>{"choices": NaN}\<close> is not valid JSON, \<open>json.loads\<close> accepts it, and \<open>analyze\<close>
  returns an empty analysis.
\<close>

theorem analyze_not_json_counterexample:
  "fst (analyze loads_example example_analyzer small_snapshot (net_of Response_undecodable))
     = Inl UnicodeDecodeError \<and>
   fst (analyze loads_example example_analyzer small_snapshot (net_of (Response_text nan_body)))
     = Inr [(''analysis'', JStr []), (''raw_response'', JObj [(''choices'', JFloat ''NaN'')])]"
proof
  show "fst (analyze loads_example example_analyzer small_snapshot (net_of Response_undecodable))
     = Inl UnicodeDecodeError"
    by (simp add: analyze_def Let_def net_of_def)
  have "loads_example nan_body = Inr (JObj [(''choices'', JFloat ''NaN'')])"
    by (simp add: loads_example_def hello_body_def html_body_def nan_body_def)
  moreover have "extract_message (JObj [(''choices'', JFloat ''NaN'')]) = Inr []"
    by (simp add: extract_message_def py_get_def dict_get_def)
  ultimately show "fst (analyze loads_example example_analyzer small_snapshot
                          (net_of (Response_text nan_body)))
     = Inr [(''analysis'', JStr []), (''raw_response'', JObj [(''choices'', JFloat ''NaN'')])]"
    by (simp add: analyze_def Let_def net_of_def)
qed

text \<open>A response with a textual answer.\<close>

lemma analyze_hello:
  "fst (analyze loads_example example_analyzer small_snapshot (net_of (Response_text hello_body)))
     = Inr [(''analysis'', JStr ''hello''), (''raw_response'', hello_response)]"
proof -
  have "extract_message hello_response = Inr ''hello''"
    by (simp add: extract_message_def hello_response_def py_get_def dict_get_def str_defs)
  moreover have "loads_example hello_body = Inr hello_response"
    by (simp add: loads_example_def)
  ultimately show ?thesis
    by (simp add: analyze_def Let_def net_of_def)
qed

end
